theory Spec2Isabelle
  imports Main "HOL-Library.Char_ord" "HOL-Library.List_Lexorder"
begin

section \<open>Python strings\<close>

text \<open>
  A HOL \<^typ>\<open>string\<close> stands for a Python \<open>str\<close> whose code points are below 256:
  the character with code \<open>n\<close> is the code point \<open>n\<close>. The string methods below are
  Python's, restricted to that range. Comparison of strings is lexicographic by code
  point, as in Python.
\<close>

definition isspace_chr :: "char \<Rightarrow> bool" where
  \<comment> \<open>\<open>str.isspace\<close> on one character: TAB..CR, FS..US, space, NEL, NBSP.\<close>
  "isspace_chr c =
     (let n = (of_char c :: nat)
      in (9 \<le> n \<and> n \<le> 13) \<or> (28 \<le> n \<and> n \<le> 32) \<or> n = 133 \<or> n = 160)"

definition strip :: "string \<Rightarrow> string" where
  \<comment> \<open>\<open>s.strip()\<close>\<close>
  "strip s = rev (dropWhile isspace_chr (rev (dropWhile isspace_chr s)))"

definition re_digit :: "char \<Rightarrow> bool" where
  \<comment> \<open>the class \<open>\d\<close> of \<open>re\<close>: decimal digits; below 256 these are \<open>0\<close>..\<open>9\<close>\<close>
  "re_digit c = (let n = (of_char c :: nat) in 48 \<le> n \<and> n \<le> 57)"

definition isdigit_chr :: "char \<Rightarrow> bool" where
  \<comment> \<open>\<open>str.isdigit\<close> on one character: \<open>0\<close>..\<open>9\<close> and the superscripts two, three, one\<close>
  "isdigit_chr c =
     (let n = (of_char c :: nat) in (48 \<le> n \<and> n \<le> 57) \<or> n = 178 \<or> n = 179 \<or> n = 185)"

definition isdigit :: "string \<Rightarrow> bool" where
  \<comment> \<open>\<open>s.isdigit()\<close>: false on the empty string\<close>
  "isdigit s = (s \<noteq> [] \<and> list_all isdigit_chr s)"

definition ascii_upper :: "char \<Rightarrow> bool" where
  "ascii_upper c = (let n = (of_char c :: nat) in 65 \<le> n \<and> n \<le> 90)"

definition ascii_lower :: "char \<Rightarrow> bool" where
  "ascii_lower c = (let n = (of_char c :: nat) in 97 \<le> n \<and> n \<le> 122)"

definition ascii_alpha :: "char \<Rightarrow> bool" where
  \<comment> \<open>the class \<open>[a-zA-Z]\<close>\<close>
  "ascii_alpha c = (ascii_lower c \<or> ascii_upper c)"

definition ascii_alnum :: "char \<Rightarrow> bool" where
  \<comment> \<open>the class \<open>[a-zA-Z0-9]\<close>\<close>
  "ascii_alnum c = (ascii_alpha c \<or> re_digit c)"

definition isupper_chr :: "char \<Rightarrow> bool" where
  \<comment> \<open>the characters that \<open>str.lower\<close> changes: \<open>A\<close>..\<open>Z\<close> and U+00C0..U+00DE without U+00D7\<close>
  "isupper_chr c =
     (let n = (of_char c :: nat) in (65 \<le> n \<and> n \<le> 90) \<or> (192 \<le> n \<and> n \<le> 222 \<and> n \<noteq> 215))"

definition lower_chr :: "char \<Rightarrow> char" where
  \<comment> \<open>the lower-case letter is 32 code points above: the bit of value 32 is set\<close>
  "lower_chr c =
     (if isupper_chr c
      then (case c of Char b0 b1 b2 b3 b4 b5 b6 b7 \<Rightarrow> Char b0 b1 b2 b3 b4 True b6 b7)
      else c)"

definition lower :: "string \<Rightarrow> string" where
  \<comment> \<open>\<open>s.lower()\<close>\<close>
  "lower s = map lower_chr s"

fun contains :: "string \<Rightarrow> string \<Rightarrow> bool" where
  \<comment> \<open>\<open>contains sub s\<close> is Python's \<open>sub in s\<close>\<close>
  "contains sub [] = (sub = [])"
| "contains sub (c # cs) = (take (length sub) (c # cs) = sub \<or> contains sub cs)"

definition remove_chr :: "char \<Rightarrow> string \<Rightarrow> string" where
  \<comment> \<open>\<open>s.replace(c, "")\<close> for a one-character \<open>c\<close>\<close>
  "remove_chr c s = filter (\<lambda>x. x \<noteq> c) s"

fun split_chr :: "char \<Rightarrow> string \<Rightarrow> string list" where
  \<comment> \<open>\<open>s.split(c)\<close> for a one-character separator\<close>
  "split_chr c [] = [[]]"
| "split_chr c (x # xs) =
     (if x = c then [] # split_chr c xs
      else (case split_chr c xs of [] \<Rightarrow> [[x]] | p # ps \<Rightarrow> (x # p) # ps))"

function str_nat :: "nat \<Rightarrow> string" where
  "str_nat n =
     (if n < 10 then [''0123456789'' ! n]
      else str_nat (n div 10) @ [''0123456789'' ! (n mod 10)])"
  by pat_completeness auto
termination
  by (relation "measure id") auto

declare str_nat.simps [simp del]

definition str_int :: "int \<Rightarrow> string" where
  \<comment> \<open>\<open>str(i)\<close>, the decimal numeral an f-string writes for an \<open>int\<close>\<close>
  "str_int i = (if i < 0 then CHR ''-'' # str_nat (nat (- i)) else str_nat (nat i))"

subsection \<open>The regular expressions of the probes\<close>

text \<open>
  Every pattern the probes hand to \<open>re.match\<close> is a sequence of repeated character
  classes between \<open>^\<close> and \<open>$\<close>. An item \<open>(p, lo, hi)\<close> is the class \<open>p\<close> repeated at
  least \<open>lo\<close> and at most \<open>hi\<close> times (\<open>None\<close>: unbounded).
\<close>

type_synonym rx_item = "(char \<Rightarrow> bool) \<times> nat \<times> nat option"

fun rx_fullmatch :: "rx_item list \<Rightarrow> string \<Rightarrow> bool" where
  "rx_fullmatch [] s = (s = [])"
| "rx_fullmatch ((p, lo, hi) # rest) s =
     list_ex (\<lambda>k. list_all p (take k s) \<and> rx_fullmatch rest (drop k s))
       [lo ..< Suc (case hi of None \<Rightarrow> length s | Some h \<Rightarrow> min h (length s))]"

definition re_match :: "rx_item list \<Rightarrow> string \<Rightarrow> bool" where
  \<comment> \<open>\<open>re.match("^...$", s)\<close> is not \<open>None\<close>; \<open>$\<close> also matches just before a final newline\<close>
  "re_match items s =
     (rx_fullmatch items s \<or> (s \<noteq> [] \<and> last s = CHR 0x0A \<and> rx_fullmatch items (butlast s)))"

definition rx_user_id :: "rx_item list" where
  \<comment> \<open>\<open>^\d{17,20}$\<close>\<close>
  "rx_user_id = [(re_digit, 17, Some 20)]"

definition rx_invite :: "rx_item list" where
  \<comment> \<open>\<open>^[a-zA-Z0-9]{2,10}$\<close>\<close>
  "rx_invite = [(ascii_alnum, 2, Some 10)]"

section \<open>Result taxonomy\<close>

datatype json =
    JNull
  | JBool bool
  | JInt int
  | JStr string
  | JList "json list"
  | JDict "(string \<times> json) list"

datatype result_status = FOUND | NOT_FOUND | BLOCKED | ERROR | UNKNOWN

record provider_result =
  provider :: string
  username :: string
  url :: string
  status :: result_status
  http_status :: "int option"
  elapsed_ms :: int
  evidence :: "(string \<times> json) list"
  profile :: "(string \<times> json) list"
  error :: "string option"
  timestamp_iso :: string

definition ProviderResult :: "string \<Rightarrow> string \<Rightarrow> string \<Rightarrow> string \<Rightarrow> provider_result" where
  \<comment> \<open>Modelled from the spec: the module \<open>types\<close> with the constructor of \<open>ProviderResult\<close>
      is not among the sources. "Constructor is total: any field omitted takes its
      zero-value (UNKNOWN for status, empty mapping for evidence/profile, zero for
      elapsed_ms, absent http_status)"; an omitted \<open>error\<close> is absent as well. The four
      arguments are the fields every call in the sources passes; the others are set by
      record update where the call passes them.\<close>
  "ProviderResult p u l ts =
     \<lparr>provider = p, username = u, url = l, status = UNKNOWN, http_status = None,
      elapsed_ms = 0, evidence = [], profile = [], error = None, timestamp_iso = ts\<rparr>"

type_synonym headers = "string \<rightharpoonup> string"

record clock =
  now_iso :: string
  elapsed :: int

section \<open>The Discord probe\<close>

definition discord_build_url :: "string \<Rightarrow> string" where
  "discord_build_url uname =
     (if re_match rx_invite (strip uname) then ''https://discord.gg/'' @ uname
      else if re_match rx_user_id (strip uname) then ''https://discord.com/users/'' @ uname
      else ''https://discord.com/users/'' @ uname)"

definition discord_check :: "clock \<Rightarrow> string \<Rightarrow> headers \<Rightarrow> provider_result \<times> headers" where
  "discord_check clk uname hdrs =
     (let l = discord_build_url uname;
          ts = now_iso clk;
          clean_user = strip uname;
          is_id = re_match rx_user_id clean_user;
          is_invite = (\<not> is_id \<and> re_match rx_invite clean_user);
          (st, err) =
            (if \<not> (is_id \<or> is_invite)
             then (NOT_FOUND, ''Invalid Discord ID or invite code format.'')
             else (UNKNOWN, ''Verification not possible. Discord profiles are not public.''))
      in ((ProviderResult ''discord'' uname l ts)
            \<lparr>status := st, http_status := None, elapsed_ms := 0,
             evidence :=
               [(''note'', JStr ''Link generation only.''),
                (''type'', JStr (if is_id then ''User ID''
                                 else if is_invite then ''Invite'' else ''Unknown''))],
             profile := [], error := Some err\<rparr>,
          hdrs))"

section \<open>Exceptions\<close>

datatype exn =
    ValueError string
  | KeyError string
  | AttributeError string
  | RuntimeError string

text \<open>
  What a probe learns from the network and from the libraries that decode a reply is
  an input of its model (an observation). An exception \<open>e\<close> raised inside a probe's
  \<open>try\<close> block (by the request, by the decoding of the body, or by a body of an
  unexpected shape) is the observation \<open>Raised\<close> with \<open>str(e)\<close>.
\<close>

definition truthy_key :: "string option \<Rightarrow> bool" where
  \<comment> \<open>the truth value of an API key: \<open>None\<close> and the empty string are false\<close>
  "truthy_key k = (case k of None \<Rightarrow> False | Some s \<Rightarrow> s \<noteq> [])"

section \<open>The Have I Been Pwned probe\<close>

record hibp_replies =
  breach_status :: int
  breach_names :: "json list"
  paste_status :: int
  paste_count :: nat

text \<open>
  \<open>HibpReplied\<close>: both requests returned. \<open>breach_names\<close> is \<open>b["Name"]\<close> for each
  \<open>b\<close> of the decoded breach body and \<open>paste_count\<close> the length of the decoded paste
  body; each is read only when its status code is 200.
\<close>

datatype hibp_obs = HibpRaised string | HibpReplied hibp_replies

definition rx_email :: "rx_item list" where
  \<comment> \<open>\<open>^[a-zA-Z0-9._%+-]+@[a-zA-Z0-9.-]+\.[a-zA-Z]{2,}$\<close>\<close>
  "rx_email =
     [(\<lambda>c. ascii_alnum c \<or> c \<in> set ''._%+-'', 1, None),
      (\<lambda>c. c = CHR ''@'', 1, Some 1),
      (\<lambda>c. ascii_alnum c \<or> c \<in> set ''.-'', 1, None),
      (\<lambda>c. c = CHR ''.'', 1, Some 1),
      (ascii_alpha, 2, None)]"

definition hibp_build_url :: "string \<Rightarrow> string" where
  "hibp_build_url uname = ''https://haveibeenpwned.com/api/v3/breachedaccount/'' @ uname"

definition hibp_breach_profile :: "hibp_replies \<Rightarrow> (string \<times> json) list" where
  "hibp_breach_profile r =
     (if breach_status r = 200
      then [(''breach_count'', JInt (int (length (breach_names r)))),
            (''breaches'', JList (breach_names r))]
      else if breach_status r = 429 then [(''breach_error'', JStr ''Rate limited'')]
      else if breach_status r \<noteq> 404
      then [(''breach_error'', JStr (''Unexpected status: '' @ str_int (breach_status r)))]
      else [])"

definition hibp_paste_profile :: "hibp_replies \<Rightarrow> (string \<times> json) list" where
  "hibp_paste_profile r =
     (if paste_status r = 200 then [(''paste_count'', JInt (int (paste_count r)))]
      else if paste_status r = 429 then [(''paste_error'', JStr ''Rate limited'')]
      else if paste_status r \<noteq> 404
      then [(''paste_error'', JStr (''Unexpected status: '' @ str_int (paste_status r)))]
      else [])"

definition hibp_status :: "hibp_replies \<Rightarrow> result_status" where
  \<comment> \<open>\<open>evidence["breaches_found"]\<close> is set exactly in the 200 branch of the breach reply,
      \<open>evidence["pastes_found"]\<close> exactly in that of the paste reply\<close>
  "hibp_status r =
     (if breach_status r = 200 \<or> paste_status r = 200 then FOUND
      else if breach_status r = 429 \<or> paste_status r = 429 then BLOCKED
      else if breach_status r = 404 \<and> paste_status r = 404 then NOT_FOUND
      else if breach_status r \<ge> 500 \<or> paste_status r \<ge> 500 then ERROR
      else UNKNOWN)"

definition hibp_error_msg :: "hibp_replies \<Rightarrow> string option" where
  "hibp_error_msg r =
     (if hibp_status r = BLOCKED then Some ''HIBP API Rate Limit Exceeded (429).''
      else if hibp_status r = ERROR
      then Some (''HIBP API Error (Breach: '' @ str_int (breach_status r) @ '', Paste: ''
                 @ str_int (paste_status r) @ '')'')
      else None)"

definition hibp_check ::
  "string option \<Rightarrow> clock \<Rightarrow> string \<Rightarrow> headers \<Rightarrow> hibp_obs \<Rightarrow> provider_result \<times> headers" where
  \<comment> \<open>the request headers are a copy, \<open>dict(headers)\<close>, in which two entries are then set\<close>
  "hibp_check api_key clk uname hdrs obs =
     (let ts = now_iso clk; l = hibp_build_url uname
      in if \<not> truthy_key api_key
         then ((ProviderResult ''hibp'' uname l ts)
                 \<lparr>status := UNKNOWN,
                  error := Some ''Skipped: HIBP API key not set in Settings (hibp_api_key).''\<rparr>,
               hdrs)
         else if contains ''*'' uname
         then ((ProviderResult ''hibp'' uname l ts)
                 \<lparr>status := ERROR, error := Some ''HIBP does not support wildcard searches.''\<rparr>,
               hdrs)
         else if \<not> re_match rx_email uname
         then ((ProviderResult ''hibp'' uname l ts)
                 \<lparr>status := NOT_FOUND,
                  error := Some ''Invalid format: HIBP requires an email address.''\<rparr>,
               hdrs)
         else
           (case obs of
              HibpRaised msg \<Rightarrow>
                ((ProviderResult ''hibp'' uname l ts)\<lparr>status := ERROR, error := Some msg\<rparr>, hdrs)
            | HibpReplied r \<Rightarrow>
                ((ProviderResult ''hibp'' uname l ts)
                   \<lparr>status := hibp_status r, error := hibp_error_msg r,
                    http_status := Some (breach_status r), elapsed_ms := elapsed clk,
                    evidence :=
                      (if breach_status r = 200 then [(''breaches_found'', JBool True)] else [])
                      @ (if paste_status r = 200 then [(''pastes_found'', JBool True)] else []),
                    profile := hibp_breach_profile r @ hibp_paste_profile r\<rparr>,
                 hdrs)))"

section \<open>The Stack Overflow probe\<close>

text \<open>\<open>SoReplied code text final\<close>: the status code, the body and the final URL \<open>str(r.url)\<close>.\<close>

datatype so_obs = SoRaised string | SoReplied int string string

definition stackoverflow_build_url :: "string \<Rightarrow> string" where
  "stackoverflow_build_url uname =
     (let clean_id = filter isdigit_chr uname
      in if clean_id \<noteq> [] then ''https://stackoverflow.com/users/'' @ clean_id
         else ''https://stackoverflow.com/'')"

definition stackoverflow_check ::
  "clock \<Rightarrow> string \<Rightarrow> headers \<Rightarrow> so_obs \<Rightarrow> provider_result \<times> headers" where
  "stackoverflow_check clk uname hdrs obs =
     (let clean_id = filter isdigit_chr uname; ts = now_iso clk
      in if clean_id = []
         then ((ProviderResult ''stackoverflow'' uname (stackoverflow_build_url uname) ts)
                 \<lparr>status := NOT_FOUND,
                  error := Some ''Invalid format. Stack Overflow requires a numeric user ID.'',
                  elapsed_ms := 0, profile := []\<rparr>,
               hdrs)
         else
           (let l = stackoverflow_build_url uname
            in case obs of
                 SoReplied code body final \<Rightarrow>
                   (let text = lower body;
                        st = (if code = 200 \<and> contains ''reputation'' text \<and> contains ''profile'' text
                              then FOUND else NOT_FOUND)
                    in ((ProviderResult ''stackoverflow'' clean_id final ts)
                          \<lparr>status := st, http_status := Some code,
                           evidence := [(''note'', JStr ''Search by User ID'')], profile := []\<rparr>,
                        hdrs))
               | SoRaised msg \<Rightarrow>
                   ((ProviderResult ''stackoverflow'' uname l ts)
                      \<lparr>status := ERROR, error := Some msg, profile := []\<rparr>,
                    hdrs)))"

section \<open>The Goodreads probe\<close>

datatype gr_obs = GrRaised string | GrReplied int string

definition goodreads_build_url :: "string \<Rightarrow> string" where
  "goodreads_build_url uname = ''https://www.goodreads.com/search?q='' @ uname"

definition href_user_show :: string where
  \<comment> \<open>the literal head of the pattern: \<open>href=\<close>, a double quote, \<open>/user/show/\<close>\<close>
  "href_user_show = ''href='' @ [CHR 0x22] @ ''/user/show/''"

fun search_user_link :: "string \<Rightarrow> string option" where
  \<comment> \<open>group 1 of the leftmost match of \<open>href="(/user/show/[^"]+)"\<close>: after the literal head, the
      longest run without a double quote, which must not be empty and must end at a
      double quote\<close>
  "search_user_link [] = None"
| "search_user_link (c # cs) =
     (let rest = drop (length href_user_show) (c # cs);
          run = takeWhile (\<lambda>x. x \<noteq> CHR 0x22) rest
      in if take (length href_user_show) (c # cs) = href_user_show \<and> run \<noteq> []
            \<and> take 1 (drop (length run) rest) = [CHR 0x22]
         then Some (''/user/show/'' @ run)
         else search_user_link cs)"

definition goodreads_check ::
  "clock \<Rightarrow> string \<Rightarrow> headers \<Rightarrow> gr_obs \<Rightarrow> provider_result \<times> headers" where
  "goodreads_check clk uname hdrs obs =
     (let search_url = goodreads_build_url uname; ts = now_iso clk
      in case obs of
           GrReplied code body \<Rightarrow>
             (let text = lower body;
                  (profile_url, st) =
                    (case search_user_link text of
                       Some g \<Rightarrow> (''https://www.goodreads.com'' @ g, FOUND)
                     | None \<Rightarrow> (search_url, NOT_FOUND))
              in ((ProviderResult ''goodreads'' uname profile_url ts)
                    \<lparr>status := st, http_status := Some code,
                     evidence := [(''note'', JStr ''Found via user search'')], profile := []\<rparr>,
                  hdrs))
         | GrRaised msg \<Rightarrow>
             ((ProviderResult ''goodreads'' uname search_url ts)
                \<lparr>status := ERROR, error := Some msg, profile := []\<rparr>,
              hdrs))"

section \<open>The GoyimTV probe\<close>

definition hex_digits :: string where
  "hex_digits = ''0123456789ABCDEF''"

definition pct :: "nat \<Rightarrow> string" where
  \<comment> \<open>\<open>'%{:02X}'.format(n)\<close> for a byte \<open>n\<close>\<close>
  "pct n = [CHR ''%'', hex_digits ! (n div 16), hex_digits ! (n mod 16)]"

definition always_safe :: "char \<Rightarrow> bool" where
  \<comment> \<open>the characters \<open>urllib.parse.quote\<close> never escapes\<close>
  "always_safe c = (ascii_alnum c \<or> c \<in> set ''_.-~'')"

definition quote_plus_chr :: "char \<Rightarrow> string" where
  \<comment> \<open>a code point from 128 on is escaped as the two bytes of its UTF-8 encoding\<close>
  "quote_plus_chr c =
     (let n = (of_char c :: nat)
      in if always_safe c then [c]
         else if c = CHR '' '' then ''+''
         else if n < 128 then pct n
         else pct (192 + n div 64) @ pct (128 + n mod 64))"

definition quote_plus :: "string \<Rightarrow> string" where
  \<comment> \<open>\<open>urllib.parse.quote_plus(s)\<close>\<close>
  "quote_plus s = concat (map quote_plus_chr s)"

definition goyimtv_build_url :: "string \<Rightarrow> string" where
  "goyimtv_build_url uname = ''https://goyimtv.st/search?tf=6&q='' @ quote_plus uname"

text \<open>
  A page is a reply as the probe reads it: the status code, the body, what the HTML
  parser finds in the body (every \<open>a\<close> element that has an \<open>href\<close>, as the pair of the
  \<open>href\<close> and \<open>get_text()\<close>; the \<open>title\<close> element, \<open>None\<close> when there is none and
  \<open>Some None\<close> when its \<open>.string\<close> is \<open>None\<close>) and the path of the final URL.
  \<open>GtReplied first retry\<close>: the reply to the first request and the reply to the second,
  which is sent only when the first status is 403, 503 or 429.
\<close>

record page =
  page_status :: int
  page_text :: string
  page_links :: "(string \<times> string) list"
  page_title :: "string option option"
  page_path :: string

datatype gt_obs = GtRaised string | GtReplied page page

definition goyimtv_headers :: "headers \<Rightarrow> headers" where
  \<comment> \<open>the eight assignments \<open>headers[...] = ...\<close> at the head of \<open>check\<close>, made on the
      mapping the caller passed\<close>
  "goyimtv_headers hdrs =
     hdrs(''Accept'' \<mapsto>
            ''text/html,application/xhtml+xml,application/xml;q=0.9,image/avif,image/webp,*/*;q=0.8'',
          ''Accept-Language'' \<mapsto> ''en-US,en;q=0.5'',
          ''Referer'' \<mapsto> ''https://goyimtv.st/'',
          ''Upgrade-Insecure-Requests'' \<mapsto> ''1'',
          ''Sec-Fetch-Dest'' \<mapsto> ''document'',
          ''Sec-Fetch-Mode'' \<mapsto> ''navigate'',
          ''Sec-Fetch-Site'' \<mapsto> ''same-origin'',
          ''Sec-Fetch-User'' \<mapsto> ''?1'')"

definition not_found_indicators :: "string list" where
  "not_found_indicators = [''no results found'', ''nothing found'', ''search returned no results'']"

definition link_matches :: "string \<Rightarrow> string \<times> string \<Rightarrow> bool" where
  \<comment> \<open>the two tests of the loop over the links, either of which sets \<open>found_match\<close>\<close>
  "link_matches uname link =
     (let href = lower (fst link); link_text = lower (strip (snd link))
      in (contains ''/channel/'' href \<and> lower uname = link_text)
         \<or> contains (''/channel/'' @ lower uname) href)"

definition goyimtv_error :: "clock \<Rightarrow> string \<Rightarrow> string \<Rightarrow> provider_result" where
  \<comment> \<open>the result of the \<open>except\<close> branch\<close>
  "goyimtv_error clk uname msg =
     (ProviderResult ''goyimtv'' uname (goyimtv_build_url uname) (now_iso clk))
       \<lparr>status := ERROR, error := Some msg, elapsed_ms := elapsed clk, profile := []\<rparr>"

definition goyimtv_result ::
  "clock \<Rightarrow> string \<Rightarrow> page \<Rightarrow> result_status \<Rightarrow> (string \<times> json) list \<Rightarrow> provider_result" where
  \<comment> \<open>the result at the end of the \<open>try\<close> block\<close>
  "goyimtv_result clk uname r st prof =
     (ProviderResult ''goyimtv'' uname (goyimtv_build_url uname) (now_iso clk))
       \<lparr>status := st, http_status := Some (page_status r), elapsed_ms := elapsed clk,
        evidence :=
          [(''len'', JInt (int (length (lower (page_text r))))),
           (''title'', (case page_title r of
                          None \<Rightarrow> JNull | Some None \<Rightarrow> JNull | Some (Some t) \<Rightarrow> JStr t))],
        profile := prof\<rparr>"

definition goyimtv_check ::
  "clock \<Rightarrow> string \<Rightarrow> headers \<Rightarrow> gt_obs \<Rightarrow> provider_result \<times> headers" where
  "goyimtv_check clk uname hdrs obs =
     (case obs of
        GtRaised msg \<Rightarrow> (goyimtv_error clk uname msg, goyimtv_headers hdrs)
      | GtReplied first retry \<Rightarrow>
          (let r = (if page_status first \<in> {403, 503, 429} then retry else first);
               text = lower (page_text r)
           in if list_ex (\<lambda>x. contains x text) not_found_indicators
              then (goyimtv_result clk uname r NOT_FOUND [], goyimtv_headers hdrs)
              else if list_ex (link_matches uname) (page_links r)
              then (case page_title r of
                      None \<Rightarrow> (goyimtv_result clk uname r FOUND [], goyimtv_headers hdrs)
                    | Some None \<Rightarrow>
                        (goyimtv_error clk uname
                           ([CHR 0x27] @ ''NoneType'' @ [CHR 0x27] @ '' object has no attribute ''
                            @ [CHR 0x27] @ ''strip'' @ [CHR 0x27]),
                         goyimtv_headers hdrs)
                    | Some (Some t) \<Rightarrow>
                        (goyimtv_result clk uname r FOUND [(''page_title'', JStr (strip t))],
                         goyimtv_headers hdrs))
              else if contains ''welcome to goyimtv'' text \<and> \<not> contains ''search'' (page_path r)
              then (goyimtv_result clk uname r NOT_FOUND [], goyimtv_headers hdrs)
              else if length (page_links r) < 5
              then (goyimtv_result clk uname r NOT_FOUND [], goyimtv_headers hdrs)
              else (goyimtv_result clk uname r NOT_FOUND [], goyimtv_headers hdrs)))"

section \<open>The breach-database probes\<close>

subsection \<open>Classifying the search term\<close>

definition int_of_digits :: "string \<Rightarrow> exn + int" where
  \<comment> \<open>\<open>int(p)\<close> for a \<open>p\<close> with \<open>p.isdigit()\<close>: the value of a decimal numeral; a superscript
      digit is a digit for \<open>isdigit\<close> and no decimal digit for \<open>int\<close>, which raises\<close>
  "int_of_digits p =
     (if list_all re_digit p
      then Inr (foldl (\<lambda>a c. 10 * a + (int (of_char c) - 48)) 0 p)
      else Inl (ValueError (''invalid literal for int() with base 10: ''
                            @ [CHR 0x27] @ p @ [CHR 0x27])))"

fun all_octets :: "string list \<Rightarrow> exn + bool" where
  \<comment> \<open>\<open>all(p.isdigit() and 0 <= int(p) <= 255 for p in parts)\<close>, left to right\<close>
  "all_octets [] = Inr True"
| "all_octets (p # ps) =
     (if isdigit p
      then (case int_of_digits p of
              Inl e \<Rightarrow> Inl e
            | Inr n \<Rightarrow> if 0 \<le> n \<and> n \<le> 255 then all_octets ps else Inr False)
      else Inr False)"

definition phone_like :: "string \<Rightarrow> bool" where
  \<comment> \<open>\<open>clean.isdigit() and 7 <= len(clean) <= 15\<close> for the term without \<open>+\<close>, \<open>-\<close>, space and
      parentheses\<close>
  "phone_like term =
     (let clean = remove_chr (CHR '')'') (remove_chr (CHR ''('') (remove_chr (CHR '' '')
                    (remove_chr (CHR ''-'') (remove_chr (CHR ''+'') term))))
      in isdigit clean \<and> 7 \<le> length clean \<and> length clean \<le> 15)"

definition dotted_quad :: "string \<Rightarrow> exn + bool" where
  \<comment> \<open>\<open>"." in term and term.count(".") == 3\<close> and then the test of the four parts\<close>
  "dotted_quad term =
     (if contains ''.'' term \<and> count_list term (CHR ''.'') = 3
      then all_octets (split_chr (CHR ''.'') term)
      else Inr False)"

fun fromkeys :: "'a list \<Rightarrow> 'a list \<Rightarrow> 'a list" where
  \<comment> \<open>\<open>list(dict.fromkeys(xs))\<close>: the first occurrence of each element, in order\<close>
  "fromkeys seen [] = []"
| "fromkeys seen (x # xs) =
     (if x \<in> set seen then fromkeys seen xs else x # fromkeys (x # seen) xs)"

definition em_dash :: string where
  \<comment> \<open>U+2014, which is beyond the code points of the model: its UTF-8 bytes\<close>
  "em_dash = [CHR 0xE2, CHR 0x80, CHR 0x94]"

subsection \<open>LeakCheck\<close>

definition leakcheck_API_BASE :: string where
  "leakcheck_API_BASE = ''https://leakcheck.io/api/v2/query''"

definition leakcheck_determine_query_type :: "string \<Rightarrow> exn + string" where
  "leakcheck_determine_query_type term =
     (if contains ''@'' term \<and> contains ''.'' term then Inr ''email''
      else if phone_like term then Inr ''phone''
      else (case dotted_quad term of
              Inl e \<Rightarrow> Inl e
            | Inr b \<Rightarrow> if b then Inr ''auto'' else Inr ''auto''))"

text \<open>
  \<open>LcReplied code body\<close>: the status code and, read only when it is 200, what the branch
  for 200 finds in the decoded body: \<open>success\<close> false, with \<open>message\<close> missing (\<open>None\<close>),
  \<open>null\<close> (\<open>Some None\<close>) or a string; or \<open>success\<close> true with a non-empty \<open>result\<close>, for which
  \<open>LcData\<close> holds the entries the branch adds to \<open>profile\<close>; or with an empty one.
  \<open>LcRaised msg added\<close>: an exception with \<open>str(e) = msg\<close>, raised when the \<open>try\<close> block had
  added the entries \<open>added\<close> to \<open>profile\<close>.
\<close>

datatype lc_body = LcNotSuccess "string option option" | LcData "(string \<times> json) list" | LcNoData

datatype lc_obs = LcRaised string "(string \<times> json) list" | LcReplied int lc_body

definition leakcheck_check ::
  "string option \<Rightarrow> clock \<Rightarrow> string \<Rightarrow> headers \<Rightarrow> lc_obs \<Rightarrow> (exn + provider_result) \<times> headers" where
  "leakcheck_check api_key clk uname hdrs obs =
     (let ts = now_iso clk;
          search_term = strip uname;
          l = (if search_term \<noteq> [] then leakcheck_API_BASE @ ''/'' @ search_term
               else leakcheck_API_BASE);
          res = (ProviderResult ''leakcheck'' uname l ts)
                  \<lparr>http_status := None, elapsed_ms := 0, evidence := [], profile := []\<rparr>
      in if \<not> truthy_key api_key
         then (Inr (res\<lparr>status := UNKNOWN,
                 error := Some ''Skipped: LeakCheck API key not set in Settings (leakcheck_api_key).''\<rparr>),
               hdrs)
         else if search_term = []
         then (Inr (res\<lparr>status := ERROR, error := Some ''Empty input.''\<rparr>), hdrs)
         else
           (case leakcheck_determine_query_type search_term of
              Inl e \<Rightarrow> (Inl e, hdrs)
            | Inr query_type \<Rightarrow>
                (let prof = [(''account'', JStr search_term), (''query_type'', JStr query_type)];
                     ev = [(''leakcheck'', JBool True)]
                 in case obs of
                      LcRaised msg added \<Rightarrow>
                        (Inr (res\<lparr>status := ERROR, http_status := None, elapsed_ms := elapsed clk,
                                  evidence := ev, profile := prof @ added, error := Some msg\<rparr>),
                         hdrs)
                    | LcReplied code body \<Rightarrow>
                        (let rep = res\<lparr>http_status := Some code, elapsed_ms := elapsed clk,
                                       evidence := ev, profile := prof\<rparr>
                         in if code = 200
                            then (case body of
                                    LcNotSuccess m \<Rightarrow>
                                      (Inr (rep\<lparr>status := ERROR,
                                              error := (case m of
                                                          None \<Rightarrow> Some ''LeakCheck returned success=false.''
                                                        | Some v \<Rightarrow> v)\<rparr>),
                                       hdrs)
                                  | LcData extras \<Rightarrow>
                                      (Inr (rep\<lparr>status := FOUND, profile := prof @ extras\<rparr>), hdrs)
                                  | LcNoData \<Rightarrow> (Inr (rep\<lparr>status := NOT_FOUND\<rparr>), hdrs))
                            else if code = 401
                            then (Inr (rep\<lparr>status := ERROR,
                                    error := Some (''Invalid API key (401) '' @ em_dash
                                                   @ '' check leakcheck_api_key in Settings.'')\<rparr>),
                                  hdrs)
                            else if code = 429
                            then (Inr (rep\<lparr>status := BLOCKED,
                                    error := Some (''Rate limited (429) '' @ em_dash
                                                   @ '' LeakCheck limit is 3 req/sec.'')\<rparr>),
                                  hdrs)
                            else if code = 503
                            then (Inr (rep\<lparr>status := BLOCKED,
                                    error := Some ''LeakCheck service unavailable (503).''\<rparr>),
                                  hdrs)
                            else (Inr (rep\<lparr>status := UNKNOWN,
                                    error := Some (''Unexpected response ('' @ str_int code @ '').'')\<rparr>),
                                  hdrs)))))"

subsection \<open>BreachVIP and Snusbase\<close>

text \<open>
  \<open>ApiReplied code hits\<close>: the status code and, read only when it is 200, whether the
  decoded body holds records: \<open>Hits\<close> with the entries the branch adds to \<open>profile\<close>, or
  \<open>NoHits\<close>. \<open>ApiRaised msg added\<close> is as for LeakCheck.
\<close>

datatype hits = Hits "(string \<times> json) list" | NoHits

datatype api_obs = ApiRaised string "(string \<times> json) list" | ApiReplied int hits

definition breachvip_build_url :: "string \<Rightarrow> string" where
  "breachvip_build_url uname = ''https://breach.vip/api/search''"

definition breachvip_determine_search_fields :: "string \<Rightarrow> exn + string list" where
  "breachvip_determine_search_fields search_term =
     (let fields0 =
            (if contains ''@'' search_term \<and> contains ''.'' search_term
             then [''email'', ''username'', ''name'']
             else if contains ''.'' search_term \<and> \<not> contains ''@'' search_term
             then [''username'', ''email'', ''name''] @ [''domain'']
             else [''username'', ''email'', ''name'']);
          fields1 = fields0 @ (if phone_like search_term then [''phone''] else []);
          fields2 = fields1 @ (if isdigit search_term \<and> 17 \<le> length search_term
                                   \<and> length search_term \<le> 20 then [''discordid''] else []);
          fields3 = fields2 @ (if length search_term = 36 \<and> contains ''-'' search_term
                               then [''uuid''] else [])
      in case dotted_quad search_term of
           Inl e \<Rightarrow> Inl e
         | Inr b \<Rightarrow>
             Inr (take 10 (fromkeys [] (fields3 @ (if b then [''ip''] else []) @ [''password'']))))"

definition breachvip_check ::
  "clock \<Rightarrow> string \<Rightarrow> headers \<Rightarrow> api_obs \<Rightarrow> (exn + provider_result) \<times> headers" where
  \<comment> \<open>the request headers are a copy, \<open>dict(headers)\<close>, which is then updated\<close>
  "breachvip_check clk uname hdrs obs =
     (let ts = now_iso clk;
          search_term = strip uname;
          res = (ProviderResult ''breachvip'' uname (breachvip_build_url uname) ts)
                  \<lparr>http_status := None, elapsed_ms := 0, evidence := [(''breachvip'', JBool True)],
                   profile := []\<rparr>
      in if search_term = []
         then (Inr (res\<lparr>status := ERROR, error := Some ''empty input''\<rparr>), hdrs)
         else
           (case breachvip_determine_search_fields search_term of
              Inl e \<Rightarrow> (Inl e, hdrs)
            | Inr fields_to_search \<Rightarrow>
                (let prof = [(''account'', JStr search_term),
                             (''fields_searched'', JList (map JStr fields_to_search))]
                 in case obs of
                      ApiRaised msg added \<Rightarrow>
                        (Inr (res\<lparr>status := ERROR, elapsed_ms := elapsed clk,
                                  profile := prof @ added, error := Some msg\<rparr>),
                         hdrs)
                    | ApiReplied code body \<Rightarrow>
                        (let rep = res\<lparr>http_status := Some code, elapsed_ms := elapsed clk,
                                       profile := prof\<rparr>
                         in if code = 200
                            then (case body of
                                    Hits extras \<Rightarrow>
                                      (Inr (rep\<lparr>status := FOUND, profile := prof @ extras\<rparr>), hdrs)
                                  | NoHits \<Rightarrow> (Inr (rep\<lparr>status := NOT_FOUND\<rparr>), hdrs))
                            else if code = 400
                            then (Inr (rep\<lparr>status := ERROR,
                                    error := Some ''Bad request - check search parameters''\<rparr>), hdrs)
                            else if code = 403
                            then (Inr (rep\<lparr>status := BLOCKED,
                                    error := Some (''Access Denied (Cloudflare). Your server IP might ''
                                      @ ''be flagged. Try searching manually at breach.vip.'')\<rparr>), hdrs)
                            else if code = 405
                            then (Inr (rep\<lparr>status := ERROR, error := Some ''Method not allowed''\<rparr>), hdrs)
                            else if code = 429
                            then (Inr (rep\<lparr>status := BLOCKED,
                                    error := Some ''Rate limited (15 requests/minute) - wait 1 minute''\<rparr>),
                                  hdrs)
                            else if code = 503
                            then (Inr (rep\<lparr>status := BLOCKED,
                                    error := Some (''Service unavailable (503) - breach.vip may be ''
                                      @ ''down or blocking requests'')\<rparr>), hdrs)
                            else if code = 500
                            then (Inr (rep\<lparr>status := ERROR, error := Some ''Internal server error''\<rparr>),
                                  hdrs)
                            else (Inr (rep\<lparr>status := UNKNOWN,
                                    error := Some (''Unexpected response ('' @ str_int code @ '')'')\<rparr>),
                                  hdrs)))))"

definition snusbase_API_URL :: string where
  "snusbase_API_URL = ''https://api.snusbase.com/data/search''"

definition snusbase_determine_types :: "string \<Rightarrow> exn + string list" where
  "snusbase_determine_types term =
     (if contains ''@'' term \<and> contains ''.'' term then Inr [''email'']
      else if phone_like term then Inr [''username'', ''email'']
      else (case dotted_quad term of
              Inl e \<Rightarrow> Inl e
            | Inr b \<Rightarrow> if b then Inr [''lastip''] else Inr [''email'', ''username'']))"

definition snusbase_check ::
  "string option \<Rightarrow> clock \<Rightarrow> string \<Rightarrow> headers \<Rightarrow> api_obs \<Rightarrow> (exn + provider_result) \<times> headers" where
  "snusbase_check api_key clk uname hdrs obs =
     (let ts = now_iso clk;
          res = (ProviderResult ''snusbase'' uname snusbase_API_URL ts)
                  \<lparr>http_status := None, elapsed_ms := 0, evidence := [], profile := []\<rparr>
      in if \<not> truthy_key api_key
         then (Inr (res\<lparr>status := UNKNOWN,
                 error := Some ''Skipped: Snusbase API key not set in Settings (snusbase_api_key).''\<rparr>),
               hdrs)
         else
           (let search_term = strip uname
            in if search_term = []
               then (Inr (res\<lparr>status := ERROR, error := Some ''Empty input.''\<rparr>), hdrs)
               else
                 (case snusbase_determine_types search_term of
                    Inl e \<Rightarrow> (Inl e, hdrs)
                  | Inr types \<Rightarrow>
                      (let prof = [(''account'', JStr search_term),
                                   (''types_searched'', JList (map JStr types))];
                           ev = [(''snusbase'', JBool True)]
                       in case obs of
                            ApiRaised msg added \<Rightarrow>
                              (Inr (res\<lparr>status := ERROR, elapsed_ms := elapsed clk, evidence := ev,
                                        profile := prof @ added, error := Some msg\<rparr>),
                               hdrs)
                          | ApiReplied code body \<Rightarrow>
                              (let rep = res\<lparr>http_status := Some code, elapsed_ms := elapsed clk,
                                             evidence := ev, profile := prof\<rparr>
                               in if code = 200
                                  then (case body of
                                          Hits extras \<Rightarrow>
                                            (Inr (rep\<lparr>status := FOUND, profile := prof @ extras\<rparr>),
                                             hdrs)
                                        | NoHits \<Rightarrow> (Inr (rep\<lparr>status := NOT_FOUND\<rparr>), hdrs))
                                  else if code = 401
                                  then (Inr (rep\<lparr>status := ERROR,
                                          error := Some (''Invalid API key (401) - check ''
                                            @ ''snusbase_api_key in Settings.'')\<rparr>), hdrs)
                                  else if code = 429
                                  then (Inr (rep\<lparr>status := BLOCKED,
                                          error := Some ''Rate limited (2048 req/day exceeded).''\<rparr>),
                                        hdrs)
                                  else if code = 503
                                  then (Inr (rep\<lparr>status := BLOCKED,
                                          error := Some ''Snusbase service unavailable (503).''\<rparr>),
                                        hdrs)
                                  else (Inr (rep\<lparr>status := UNKNOWN,
                                          error := Some (''Unexpected response ('' @ str_int code
                                                         @ '').'')\<rparr>),
                                        hdrs))))))"

section \<open>The probes of the repository\<close>

text \<open>
  One call of \<open>check\<close>: the probe, the API key it finds (for the three probes that need
  one) and what it observes. The Discord probe sends no request and observes nothing.
\<close>

datatype probe_call =
    Discord
  | HIBP "string option" hibp_obs
  | StackOverflow so_obs
  | GoyimTV gt_obs
  | Goodreads gr_obs
  | LeakCheck "string option" lc_obs
  | BreachVIP api_obs
  | Snusbase "string option" api_obs

fun probe_check ::
  "probe_call \<Rightarrow> clock \<Rightarrow> string \<Rightarrow> headers \<Rightarrow> (exn + provider_result) \<times> headers" where
  "probe_check Discord clk uname hdrs = map_prod Inr id (discord_check clk uname hdrs)"
| "probe_check (HIBP k obs) clk uname hdrs = map_prod Inr id (hibp_check k clk uname hdrs obs)"
| "probe_check (StackOverflow obs) clk uname hdrs =
     map_prod Inr id (stackoverflow_check clk uname hdrs obs)"
| "probe_check (GoyimTV obs) clk uname hdrs = map_prod Inr id (goyimtv_check clk uname hdrs obs)"
| "probe_check (Goodreads obs) clk uname hdrs = map_prod Inr id (goodreads_check clk uname hdrs obs)"
| "probe_check (LeakCheck k obs) clk uname hdrs = leakcheck_check k clk uname hdrs obs"
| "probe_check (BreachVIP obs) clk uname hdrs = breachvip_check clk uname hdrs obs"
| "probe_check (Snusbase k obs) clk uname hdrs = snusbase_check k clk uname hdrs obs"

section \<open>The scan engine\<close>

text \<open>
  An HTTP client handle: the direct client, or a client made with \<open>proxy=url\<close> for the
  Tor proxy or for the clearnet proxy.
\<close>

datatype client = ClientDirect | ClientTor string | ClientClearnet string

record clients =
  client_direct :: client
  client_tor :: "client option"
  client_clearnet_proxy :: "client option"

text \<open>
  What awaiting \<open>asyncio.wait_for(prov.check(...), timeout)\<close> yields: the result of
  \<open>check\<close>; \<open>asyncio.TimeoutError\<close>, raised when \<open>check\<close> has not completed within
  the timeout; or any other exception that \<open>check\<close> raises. The passing of time is not
  modelled: which of the three happens is part of the probe.
\<close>

datatype check_outcome = Returned provider_result | TimedOut | CheckRaised exn

text \<open>
  \<open>BaseProvider\<close>. The class declares \<open>name\<close>, \<open>timeout\<close>, \<open>ua_profile\<close> and \<open>use_proxy\<close>,
  so the defaults of the engine's \<open>getattr\<close> calls are never used.
\<close>

record base_provider =
  name :: string
  timeout :: int
  ua_profile :: string
  use_proxy :: bool
  build_url :: "string \<Rightarrow> string"
  check :: "string \<Rightarrow> client \<Rightarrow> headers \<Rightarrow> check_outcome"

text \<open>
  \<open>BaseAddon.run(username, results, client, limiter)\<close> may append to the list
  \<open>results\<close> in place: the model returns the list as the addon leaves it, or the
  exception it raises. The limiter only delays and is left out.
\<close>

record base_addon =
  run :: "string \<Rightarrow> provider_result list \<Rightarrow> client \<Rightarrow> exn + provider_result list"

record engine =
  registry :: "(string \<times> base_provider) list"
  addon_registry :: "(string \<times> base_addon) list"
  enabled_addon_names :: "string list"

text \<open>
  The process environment and the modules \<open>ua\<close> and \<open>demo\<close>, which are not among the
  sources: the two environment variables as \<open>os.getenv\<close> returns them, the table
  \<open>UA_PROFILES\<close>, \<open>is_demo_mode()\<close>, the two censors, and the time
  \<open>datetime.now(timezone.utc).isoformat()\<close> of a synthesised result.
\<close>

record env =
  SOCIAL_HUNT_PROXY :: "string option"
  SOCIAL_HUNT_CLEARNET_PROXY :: "string option"
  UA_PROFILES :: "string \<rightharpoonup> headers"
  is_demo_mode :: bool
  censor_value :: "json \<Rightarrow> string \<Rightarrow> json"
  censor_breach_data :: "json list \<Rightarrow> json"
  utcnow :: string

definition merge_headers :: "headers \<Rightarrow> headers \<Rightarrow> headers" where
  \<comment> \<open>Modelled from the spec: the module \<open>ua\<close> is not among the sources. "produces a new
      mapping equal to base overlaid by override (override wins per key; neither input
      is mutated)".\<close>
  "merge_headers base override = base ++ override"

definition chosen_providers :: "(string \<times> 'p) list \<Rightarrow> string list option \<Rightarrow> string list" where
  \<comment> \<open>\<open>if providers:\<close> is false for \<open>None\<close> and for the empty list\<close>
  "chosen_providers reg providers =
     (case providers of
        None \<Rightarrow> map fst reg
      | Some ps \<Rightarrow> if ps \<noteq> [] then filter (\<lambda>p. p \<in> set (map fst reg)) ps else map fst reg)"

definition open_client :: "(string \<Rightarrow> client) \<Rightarrow> string option \<Rightarrow> client option" where
  \<comment> \<open>\<open>None\<close> unless the variable is set to a non-empty string\<close>
  "open_client mk proxy_url =
     (case proxy_url of None \<Rightarrow> None | Some u \<Rightarrow> if u \<noteq> [] then Some (mk u) else None)"

definition open_clients :: "env \<Rightarrow> clients" where
  "open_clients ev =
     \<lparr>client_direct = ClientDirect,
      client_tor = open_client ClientTor (SOCIAL_HUNT_PROXY ev),
      client_clearnet_proxy = open_client ClientClearnet (SOCIAL_HUNT_CLEARNET_PROXY ev)\<rparr>"

definition select_client :: "clients \<Rightarrow> base_provider \<Rightarrow> string \<Rightarrow> client" where
  \<comment> \<open>\<open>a and c\<close> is \<open>c\<close> when \<open>a\<close> is true; a client object is true, \<open>None\<close> is false\<close>
  "select_client cl prov l =
     (case (if contains ''.onion'' l then client_tor cl else None) of
        Some c \<Rightarrow> c
      | None \<Rightarrow>
          (case (if use_proxy prov then client_clearnet_proxy cl else None) of
             Some c \<Rightarrow> c
           | None \<Rightarrow> client_direct cl))"

definition probe_headers :: "env \<Rightarrow> base_provider \<Rightarrow> headers" where
  "probe_headers ev prov =
     (let base_headers = (case UA_PROFILES ev ''desktop_chrome'' of Some h \<Rightarrow> h | None \<Rightarrow> Map.empty);
          prof_headers = (case UA_PROFILES ev (ua_profile prov) of Some h \<Rightarrow> h | None \<Rightarrow> Map.empty)
      in merge_headers base_headers prof_headers)"

definition timed_out_result :: "env \<Rightarrow> base_provider \<Rightarrow> string \<Rightarrow> provider_result" where
  \<comment> \<open>the result of the branch \<open>except asyncio.TimeoutError\<close>\<close>
  "timed_out_result ev prov uname =
     (let provider_timeout = timeout prov + 5
      in (ProviderResult (name prov) uname (build_url prov uname) (utcnow ev))
           \<lparr>status := ERROR, http_status := None, elapsed_ms := provider_timeout * 1000,
            evidence := [], profile := [],
            error := Some (''Timed out after '' @ str_int provider_timeout @ ''s'')\<rparr>)"

definition censor_dict :: "env \<Rightarrow> (string \<times> json) list \<Rightarrow> (string \<times> json) list" where
  \<comment> \<open>\<open>{ik: censor_value(iv, ik) for ik, iv in v.items()}\<close>\<close>
  "censor_dict ev kvs = map (\<lambda>(ik, iv). (ik, censor_value ev iv ik)) kvs"

fun censor_profile_item :: "env \<Rightarrow> string \<times> json \<Rightarrow> string \<times> json" where
  "censor_profile_item ev (k, JList xs) =
     (if k = ''raw_results'' then (k, censor_breach_data ev xs)
      else (k, censor_value ev (JList xs) k))"
| "censor_profile_item ev (k, JDict kvs) = (k, JDict (censor_dict ev kvs))"
| "censor_profile_item ev (k, v) = (k, censor_value ev v k)"

fun censor_evidence_item :: "env \<Rightarrow> string \<times> json \<Rightarrow> string \<times> json" where
  "censor_evidence_item ev (k, JDict kvs) = (k, JDict (censor_dict ev kvs))"
| "censor_evidence_item ev (k, v) = (k, censor_value ev v k)"

definition demo_censor :: "env \<Rightarrow> provider_result \<Rightarrow> provider_result" where
  \<comment> \<open>an empty \<open>profile\<close> or \<open>evidence\<close> is false and is left as it is\<close>
  "demo_censor ev res =
     (if is_demo_mode ev
      then (let res1 = (if profile res \<noteq> []
                        then res\<lparr>profile := map (censor_profile_item ev) (profile res)\<rparr>
                        else res)
            in if evidence res1 \<noteq> []
               then res1\<lparr>evidence := map (censor_evidence_item ev) (evidence res1)\<rparr>
               else res1)
      else res)"

definition emit ::
  "env \<Rightarrow> (provider_result \<Rightarrow> exn option) option \<Rightarrow> provider_result \<Rightarrow> exn + provider_result" where
  \<comment> \<open>the end of \<open>run_one\<close>: the censorship of demo mode, the progress callback (which
      returns \<open>None\<close>, or \<open>Some e\<close> when it raises \<open>e\<close>) and \<open>return res\<close>\<close>
  "emit ev progress_callback res0 =
     (let res = demo_censor ev res0
      in case progress_callback of
           None \<Rightarrow> Inr res
         | Some cb \<Rightarrow> (case cb res of Some e \<Rightarrow> Inl e | None \<Rightarrow> Inr res))"

definition run_one ::
  "engine \<Rightarrow> env \<Rightarrow> clients \<Rightarrow> string \<Rightarrow> (provider_result \<Rightarrow> exn option) option \<Rightarrow> string
     \<Rightarrow> exn + provider_result" where
  \<comment> \<open>the waits for the host limiter and for the semaphore only delay\<close>
  "run_one eng ev cl uname progress_callback nm =
     (case map_of (registry eng) nm of
        None \<Rightarrow> Inl (KeyError nm)
      | Some prov \<Rightarrow>
          (let l = build_url prov uname;
               hdrs = probe_headers ev prov;
               use_client = select_client cl prov l
           in case check prov uname use_client hdrs of
                Returned res \<Rightarrow> emit ev progress_callback res
              | TimedOut \<Rightarrow> emit ev progress_callback (timed_out_result ev prov uname)
              | CheckRaised e \<Rightarrow> Inl e))"

text \<open>
  \<open>asyncio.gather\<close> returns the results in the order of its tasks and raises the first
  exception a task raises. The tasks run interleaved; the model runs them one after
  the other, so of several exceptions it reports that of the first task in the list.
\<close>

fun gather :: "('a \<Rightarrow> exn + 'b) \<Rightarrow> 'a list \<Rightarrow> exn + 'b list" where
  "gather f [] = Inr []"
| "gather f (x # xs) =
     (case f x of
        Inl e \<Rightarrow> Inl e
      | Inr y \<Rightarrow> (case gather f xs of Inl e \<Rightarrow> Inl e | Inr ys \<Rightarrow> Inr (y # ys)))"

fun run_addons ::
  "base_addon list \<Rightarrow> string \<Rightarrow> client \<Rightarrow> provider_result list \<Rightarrow> exn + provider_result list" where
  \<comment> \<open>the addon tasks share the one list \<open>results\<close>; \<open>gather\<close> raises the first exception\<close>
  "run_addons [] uname c results = Inr results"
| "run_addons (a # as) uname c results =
     (case run a uname results c of
        Inl e \<Rightarrow> Inl e
      | Inr results' \<Rightarrow> run_addons as uname c results')"

definition addons_to_run :: "engine \<Rightarrow> base_addon list option \<Rightarrow> base_addon list" where
  "addons_to_run eng dynamic_addons =
     List.map_filter (map_of (addon_registry eng)) (enabled_addon_names eng)
     @ (case dynamic_addons of None \<Rightarrow> [] | Some ds \<Rightarrow> ds)"

definition scan_username ::
  "engine \<Rightarrow> env \<Rightarrow> string \<Rightarrow> string list option \<Rightarrow> base_addon list option
     \<Rightarrow> (provider_result \<Rightarrow> exn option) option \<Rightarrow> exn + provider_result list" where
  "scan_username eng ev uname providers dynamic_addons progress_callback =
     (let chosen = chosen_providers (registry eng) providers;
          cl = open_clients ev
      in case gather (run_one eng ev cl uname progress_callback) chosen of
           Inl e \<Rightarrow> Inl e
         | Inr results \<Rightarrow>
             (case (if addons_to_run eng dynamic_addons \<noteq> []
                    then run_addons (addons_to_run eng dynamic_addons) uname (client_direct cl) results
                    else Inr results) of
                Inl e \<Rightarrow> Inl e
              | Inr results' \<Rightarrow> Inr (sort_key (\<lambda>r. lower (provider r)) results')))"

section \<open>Example inputs\<close>

definition example_clock :: clock where
  "example_clock = \<lparr>now_iso = ''2024-05-01T12:00:00+00:00'', elapsed = 120\<rparr>"

definition example_headers :: headers where
  "example_headers = [''User-Agent'' \<mapsto> ''Mozilla/5.0'']"

definition hibp_replies_403 :: hibp_replies where
  "hibp_replies_403 = \<lparr>breach_status = 403, breach_names = [], paste_status = 403, paste_count = 0\<rparr>"


definition example_env :: env where
  "example_env =
     \<lparr>SOCIAL_HUNT_PROXY = Some ''socks5h://127.0.0.1:9050'',
      SOCIAL_HUNT_CLEARNET_PROXY = None,
      UA_PROFILES = Map.empty,
      is_demo_mode = True,
      censor_value = (\<lambda>v k. JStr ''***''),
      censor_breach_data = (\<lambda>xs. JList []),
      utcnow = ''2024-05-01T12:00:15+00:00''\<rparr>"

definition empty_proxy_env :: env where
  \<comment> \<open>\<open>SOCIAL_HUNT_PROXY\<close> is set, to the empty string\<close>
  "empty_proxy_env = example_env\<lparr>SOCIAL_HUNT_PROXY := Some ''''\<rparr>"

definition slow_provider :: base_provider where
  "slow_provider =
     \<lparr>name = ''slow'', timeout = 10, ua_profile = ''desktop_chrome'', use_proxy = False,
      build_url = (\<lambda>u. ''http://slowsite.onion/'' @ u),
      check = (\<lambda>u c h. TimedOut)\<rparr>"

definition echo_provider :: "string \<Rightarrow> base_provider" where
  "echo_provider nm =
     \<lparr>name = nm, timeout = 10, ua_profile = ''desktop_chrome'', use_proxy = False,
      build_url = (\<lambda>u. ''https://example.org/'' @ u),
      check = (\<lambda>u c h. Returned ((ProviderResult nm u (''https://example.org/'' @ u)
                                       ''2024-05-01T12:00:00+00:00'')\<lparr>status := FOUND\<rparr>))\<rparr>"

definition example_engine :: engine where
  "example_engine =
     \<lparr>registry = [(''Zeta'', echo_provider ''Zeta''), (''alpha'', echo_provider ''alpha'')],
      addon_registry = [], enabled_addon_names = []\<rparr>"

definition slow_engine :: engine where
  "slow_engine = \<lparr>registry = [(''slow'', slow_provider)], addon_registry = [], enabled_addon_names = []\<rparr>"



definition two_registry :: "(string \<times> unit) list" where
  "two_registry = [(''a'', ()), (''b'', ())]"

section \<open>What each probe puts into its result\<close>

lemma discord_fields:
  "fst (discord_check clk u h) = r \<Longrightarrow>
     username r = u \<and> error r \<noteq> None \<and> status r \<noteq> FOUND \<and> status r \<noteq> BLOCKED \<and> status r \<noteq> ERROR"
  by (auto simp: discord_check_def Let_def ProviderResult_def split: if_splits)

lemma hibp_fields:
  "fst (hibp_check k clk u h obs) = r \<Longrightarrow>
     username r = u
   \<and> (status r = FOUND \<longrightarrow> error r = None)
   \<and> (status r = BLOCKED \<longrightarrow> error r \<noteq> None)
   \<and> (status r = ERROR \<longrightarrow> error r \<noteq> None)
   \<and> (status r = UNKNOWN \<and> \<not> truthy_key k \<longrightarrow> error r \<noteq> None)
   \<and> (status r = UNKNOWN \<and> truthy_key k \<longrightarrow> error r = None)"
  by (auto simp: hibp_check_def Let_def ProviderResult_def hibp_error_msg_def
           split: hibp_obs.splits if_splits)

lemma stackoverflow_fields:
  "fst (stackoverflow_check clk u h obs) = r \<Longrightarrow>
     (status r = FOUND \<longrightarrow> error r = None) \<and> status r \<noteq> BLOCKED \<and> status r \<noteq> UNKNOWN
   \<and> (status r = ERROR \<longrightarrow> error r \<noteq> None)"
  by (auto simp: stackoverflow_check_def Let_def ProviderResult_def
           split: so_obs.splits if_splits)

lemma stackoverflow_username:
  "username (fst (stackoverflow_check clk u h obs)) =
     (case obs of
        SoReplied code body final \<Rightarrow>
          if filter isdigit_chr u = [] then u else filter isdigit_chr u
      | SoRaised msg \<Rightarrow> u)"
  by (auto simp: stackoverflow_check_def Let_def ProviderResult_def
           split: so_obs.splits if_splits)

lemma goodreads_fields:
  "fst (goodreads_check clk u h obs) = r \<Longrightarrow>
     username r = u
   \<and> (status r = FOUND \<longrightarrow> error r = None) \<and> status r \<noteq> BLOCKED \<and> status r \<noteq> UNKNOWN
   \<and> (status r = ERROR \<longrightarrow> error r \<noteq> None)"
  by (auto simp: goodreads_check_def Let_def ProviderResult_def
           split: gr_obs.splits option.splits if_splits)

lemma goyimtv_fields:
  "fst (goyimtv_check clk u h obs) = r \<Longrightarrow>
     username r = u
   \<and> (status r = FOUND \<longrightarrow> error r = None) \<and> status r \<noteq> BLOCKED \<and> status r \<noteq> UNKNOWN
   \<and> (status r = ERROR \<longrightarrow> error r \<noteq> None)"
  by (auto simp: goyimtv_check_def goyimtv_result_def goyimtv_error_def Let_def ProviderResult_def
           split: gt_obs.splits option.splits if_splits)

lemma leakcheck_fields:
  "fst (leakcheck_check k clk u h obs) = Inr r \<Longrightarrow>
     username r = u
   \<and> (status r = FOUND \<longrightarrow> error r = None)
   \<and> (status r = BLOCKED \<longrightarrow> error r \<noteq> None)
   \<and> (status r = ERROR \<and> obs \<noteq> LcReplied 200 (LcNotSuccess (Some None)) \<longrightarrow> error r \<noteq> None)
   \<and> (status r = UNKNOWN \<longrightarrow> error r \<noteq> None)"
  by (auto simp: leakcheck_check_def Let_def ProviderResult_def
           split: lc_obs.splits lc_body.splits sum.splits option.splits if_splits)

lemma breachvip_fields:
  "fst (breachvip_check clk u h obs) = Inr r \<Longrightarrow>
     username r = u
   \<and> (status r = FOUND \<longrightarrow> error r = None)
   \<and> (status r = BLOCKED \<longrightarrow> error r \<noteq> None)
   \<and> (status r = ERROR \<longrightarrow> error r \<noteq> None)
   \<and> (status r = UNKNOWN \<longrightarrow> error r \<noteq> None)"
  by (auto simp: breachvip_check_def Let_def ProviderResult_def
           split: api_obs.splits hits.splits sum.splits if_splits)

lemma snusbase_fields:
  "fst (snusbase_check k clk u h obs) = Inr r \<Longrightarrow>
     username r = u
   \<and> (status r = FOUND \<longrightarrow> error r = None)
   \<and> (status r = BLOCKED \<longrightarrow> error r \<noteq> None)
   \<and> (status r = ERROR \<longrightarrow> error r \<noteq> None)
   \<and> (status r = UNKNOWN \<longrightarrow> error r \<noteq> None)"
  by (auto simp: snusbase_check_def Let_def ProviderResult_def
           split: api_obs.splits hits.splits sum.splits if_splits)


lemma stackoverflow_username_r:
  "fst (stackoverflow_check clk u h obs) = r \<Longrightarrow>
   username r = (case obs of
        SoReplied code body final \<Rightarrow>
          if filter isdigit_chr u = [] then u else filter isdigit_chr u
      | SoRaised msg \<Rightarrow> u)"
  using stackoverflow_username by blast

section \<open>The username of a result\<close>

text \<open>
  C8 states that the \<open>username\<close> of every result is the identifier as supplied. For the
  identifier \<open>user42\<close> and a reply to its request, the Stack Overflow probe reports the
  username \<open>42\<close>: this one return passes \<open>username=clean_id\<close>, the digits of the
  identifier, where the two other returns of the same \<open>check\<close> pass the identifier. The
  probe's format check, which says that a numeric user ID is required, rejects only an
  identifier without any digit, so a mixed identifier reaches the request.
\<close>

theorem stackoverflow_username_not_echoed:
  "username (fst (stackoverflow_check example_clock ''user42'' example_headers
                    (SoReplied 200 ''reputation profile'' ''https://stackoverflow.com/users/42/user'')))
     = ''42''
   \<and> username (fst (stackoverflow_check example_clock ''user42'' example_headers
                    (SoReplied 200 ''reputation profile'' ''https://stackoverflow.com/users/42/user'')))
     \<noteq> ''user42''"
  by code_simp

text \<open>
  Elsewhere the rule holds: the result of every probe carries the identifier as
  supplied in \<open>username\<close>, the result the Stack Overflow probe builds from a reply to
  its request set aside, which carries the digits of the identifier.
\<close>

theorem username_by_probe:
  assumes "fst (probe_check pc clk uname hdrs) = Inr r"
  shows "username r =
       (case pc of
          StackOverflow (SoReplied code body final) \<Rightarrow>
            if filter isdigit_chr uname = [] then uname else filter isdigit_chr uname
        | _ \<Rightarrow> uname)"
proof (cases pc)
  case (StackOverflow obs)
  then show ?thesis
    using assms stackoverflow_username_r [of clk uname hdrs obs r]
    by (cases "stackoverflow_check clk uname hdrs obs") (auto split: so_obs.splits)
next
  case Discord
  then show ?thesis
    using assms discord_fields [of clk uname hdrs r]
    by (cases "discord_check clk uname hdrs") auto
next
  case (HIBP k obs)
  then show ?thesis
    using assms hibp_fields [of k clk uname hdrs obs r]
    by (cases "hibp_check k clk uname hdrs obs") auto
next
  case (GoyimTV obs)
  then show ?thesis
    using assms goyimtv_fields [of clk uname hdrs obs r]
    by (cases "goyimtv_check clk uname hdrs obs") auto
next
  case (Goodreads obs)
  then show ?thesis
    using assms goodreads_fields [of clk uname hdrs obs r]
    by (cases "goodreads_check clk uname hdrs obs") auto
next
  case (LeakCheck k obs)
  then show ?thesis
    using assms leakcheck_fields [of k clk uname hdrs obs r] by auto
next
  case (BreachVIP obs)
  then show ?thesis
    using assms breachvip_fields [of clk uname hdrs obs r] by auto
next
  case (Snusbase k obs)
  then show ?thesis
    using assms snusbase_fields [of k clk uname hdrs obs r] by auto
qed

theorem username_by_probe_witness:
  "fst (probe_check (StackOverflow (SoReplied 200 ''reputation profile'' ''https://stackoverflow.com/users/42''))
          example_clock ''user42'' example_headers)
     = Inr (fst (stackoverflow_check example_clock ''user42'' example_headers
                    (SoReplied 200 ''reputation profile'' ''https://stackoverflow.com/users/42'')))
   \<and> username (fst (stackoverflow_check example_clock ''user42'' example_headers
                    (SoReplied 200 ''reputation profile'' ''https://stackoverflow.com/users/42'')))
       = ''42''"
proof -
  have h: "fst (probe_check (StackOverflow (SoReplied 200 ''reputation profile'' ''https://stackoverflow.com/users/42''))
          example_clock ''user42'' example_headers)
     = Inr (fst (stackoverflow_check example_clock ''user42'' example_headers
                    (SoReplied 200 ''reputation profile'' ''https://stackoverflow.com/users/42'')))"
    by simp
  have d: "filter isdigit_chr ''user42'' = ''42''"
    by code_simp
  show ?thesis
    using h username_by_probe [OF h] d by simp
qed

section \<open>The error string of a result\<close>

text \<open>
  C7 states that every UNKNOWN result carries an error string. With a key configured, an
  email address as identifier and both replies of status 403, the HIBP probe returns
  status UNKNOWN with no error string: its \<open>error_msg\<close> is set for BLOCKED and for
  ERROR only.
\<close>

theorem hibp_unknown_without_error:
  "status (fst (hibp_check (Some ''key'') example_clock ''alice@example.com'' example_headers
                  (HibpReplied hibp_replies_403))) = UNKNOWN
   \<and> error (fst (hibp_check (Some ''key'') example_clock ''alice@example.com'' example_headers
                  (HibpReplied hibp_replies_403))) = None"
  by code_simp

text \<open>
  Elsewhere the rule holds. In the result of every probe, a FOUND result carries no
  error string and a BLOCKED result carries one; an ERROR result carries one (LeakCheck's
  reply of status 200 with \<open>success\<close> false and a \<open>null\<close> message set aside); an UNKNOWN
  result carries one, unless it is the UNKNOWN result of the HIBP probe with a key
  configured, which carries none.
\<close>

theorem error_by_status:
  assumes "fst (probe_check pc clk uname hdrs) = Inr r"
  shows "(status r = FOUND \<longrightarrow> error r = None)
   \<and> (status r = BLOCKED \<longrightarrow> error r \<noteq> None)
   \<and> (status r = ERROR \<and> (\<forall>k. pc \<noteq> LeakCheck k (LcReplied 200 (LcNotSuccess (Some None))))
        \<longrightarrow> error r \<noteq> None)
   \<and> (status r = UNKNOWN \<and> (\<forall>k obs. pc = HIBP k obs \<longrightarrow> \<not> truthy_key k) \<longrightarrow> error r \<noteq> None)
   \<and> (status r = UNKNOWN \<and> (\<exists>k obs. pc = HIBP k obs \<and> truthy_key k) \<longrightarrow> error r = None)"
proof (cases pc)
  case (StackOverflow obs)
  then show ?thesis
    using assms stackoverflow_fields [of clk uname hdrs obs r]
    by (cases "stackoverflow_check clk uname hdrs obs") auto
next
  case Discord
  then show ?thesis
    using assms discord_fields [of clk uname hdrs r]
    by (cases "discord_check clk uname hdrs") auto
next
  case (HIBP k obs)
  then show ?thesis
    using assms hibp_fields [of k clk uname hdrs obs r]
    by (cases "hibp_check k clk uname hdrs obs") auto
next
  case (GoyimTV obs)
  then show ?thesis
    using assms goyimtv_fields [of clk uname hdrs obs r]
    by (cases "goyimtv_check clk uname hdrs obs") auto
next
  case (Goodreads obs)
  then show ?thesis
    using assms goodreads_fields [of clk uname hdrs obs r]
    by (cases "goodreads_check clk uname hdrs obs") auto
next
  case (LeakCheck k obs)
  then show ?thesis
    using assms leakcheck_fields [of k clk uname hdrs obs r] by auto
next
  case (BreachVIP obs)
  then show ?thesis
    using assms breachvip_fields [of clk uname hdrs obs r] by auto
next
  case (Snusbase k obs)
  then show ?thesis
    using assms snusbase_fields [of k clk uname hdrs obs r] by auto
qed


theorem error_by_status_witness:
  "fst (probe_check (HIBP (Some ''key'') (HibpReplied hibp_replies_403)) example_clock
          ''alice@example.com'' example_headers)
     = Inr (fst (hibp_check (Some ''key'') example_clock ''alice@example.com'' example_headers
                   (HibpReplied hibp_replies_403)))
   \<and> status (fst (hibp_check (Some ''key'') example_clock ''alice@example.com'' example_headers
                   (HibpReplied hibp_replies_403))) = UNKNOWN
   \<and> truthy_key (Some ''key'')
   \<and> error (fst (hibp_check (Some ''key'') example_clock ''alice@example.com'' example_headers
                   (HibpReplied hibp_replies_403))) = None"
proof -
  have h: "fst (probe_check (HIBP (Some ''key'') (HibpReplied hibp_replies_403)) example_clock
          ''alice@example.com'' example_headers)
     = Inr (fst (hibp_check (Some ''key'') example_clock ''alice@example.com'' example_headers
                   (HibpReplied hibp_replies_403)))"
    by simp
  have s: "status (fst (hibp_check (Some ''key'') example_clock ''alice@example.com'' example_headers
                   (HibpReplied hibp_replies_403))) = UNKNOWN"
    by code_simp
  have k: "truthy_key (Some ''key'')"
    by (simp add: truthy_key_def)
  show ?thesis
    using h s k error_by_status [OF h] by blast
qed

section \<open>The status BLOCKED\<close>








section \<open>The header mapping\<close>

lemma goyimtv_check_headers: "snd (goyimtv_check clk u h obs) = goyimtv_headers h"
  by (auto simp: goyimtv_check_def Let_def split: gt_obs.splits option.splits)

lemma other_probes_keep_headers:
  "(\<forall>obs. pc \<noteq> GoyimTV obs) \<Longrightarrow> snd (probe_check pc clk u h) = h"
  by (cases pc)
     (auto simp: discord_check_def hibp_check_def stackoverflow_check_def goodreads_check_def
                 leakcheck_check_def breachvip_check_def snusbase_check_def Let_def
           split: hibp_obs.splits so_obs.splits gr_obs.splits lc_obs.splits lc_body.splits
                  api_obs.splits hits.splits sum.splits option.splits if_splits prod.splits)

text \<open>
  C9 states that no probe changes the header mapping passed to \<open>check\<close>. The GoyimTV
  probe does: called with a mapping that has no \<open>Referer\<close>, it leaves the caller's
  mapping with \<open>Referer\<close> set (and seven more entries), where the HIBP and BreachVIP
  probes copy the mapping before they add entries.
\<close>

theorem goyimtv_check_sets_headers:
  "example_headers ''Referer'' = None
   \<and> snd (goyimtv_check example_clock ''alice'' example_headers (GtRaised ''connection refused''))
        ''Referer'' = Some ''https://goyimtv.st/''"
  by (simp add: goyimtv_check_def goyimtv_headers_def example_headers_def)

section \<open>The Discord probe: format check only\<close>

lemma rx_single:
  "rx_fullmatch [(p, lo, Some hi)] s = (lo \<le> length s \<and> length s \<le> hi \<and> list_all p s)"
  by (auto simp: list_ex_iff)

lemma strip_last: "strip s \<noteq> [] \<Longrightarrow> \<not> isspace_chr (last (strip s))"
proof -
  assume n: "strip s \<noteq> []"
  let ?xs = "dropWhile isspace_chr (rev (dropWhile isspace_chr s))"
  from n have "?xs \<noteq> []" by (simp add: strip_def)
  then have "\<not> isspace_chr (hd ?xs)" by (rule hd_dropWhile)
  moreover have "last (strip s) = hd ?xs"
    using \<open>?xs \<noteq> []\<close> by (simp add: strip_def last_rev)
  ultimately show ?thesis by simp
qed

lemma re_match_strip: "re_match items (strip s) = rx_fullmatch items (strip s)"
proof -
  have "isspace_chr (CHR 0x0A)" by (simp add: isspace_chr_def)
  then have "strip s \<noteq> [] \<Longrightarrow> last (strip s) \<noteq> CHR 0x0A"
    using strip_last [of s] by metis
  then show ?thesis by (auto simp: re_match_def)
qed

text \<open>
  C10: the Discord probe observes nothing (its model takes no reply: it sends no
  request); its result has no HTTP status and an elapsed time of 0; its status is
  NOT_FOUND, with the error "Invalid Discord ID or invite code format.", exactly when
  the stripped identifier matches neither \<open>^\d{17,20}$\<close> (17 to 20 digits) nor
  \<open>^[a-zA-Z0-9]{2,10}$\<close> (2 to 10 letters or digits), and UNKNOWN, with the error
  "Verification not possible. Discord profiles are not public.", otherwise.
\<close>

theorem discord_check_format:
  "http_status (fst (discord_check clk uname hdrs)) = None
   \<and> elapsed_ms (fst (discord_check clk uname hdrs)) = 0
   \<and> (status (fst (discord_check clk uname hdrs)) = NOT_FOUND
        \<longleftrightarrow> \<not> re_match rx_user_id (strip uname) \<and> \<not> re_match rx_invite (strip uname))
   \<and> (status (fst (discord_check clk uname hdrs)) = UNKNOWN
        \<longleftrightarrow> re_match rx_user_id (strip uname) \<or> re_match rx_invite (strip uname))
   \<and> (status (fst (discord_check clk uname hdrs)) = NOT_FOUND
        \<longrightarrow> error (fst (discord_check clk uname hdrs))
              = Some ''Invalid Discord ID or invite code format.'')
   \<and> (status (fst (discord_check clk uname hdrs)) = UNKNOWN
        \<longrightarrow> error (fst (discord_check clk uname hdrs))
              = Some ''Verification not possible. Discord profiles are not public.'')
   \<and> (re_match rx_user_id (strip uname)
        \<longleftrightarrow> 17 \<le> length (strip uname) \<and> length (strip uname) \<le> 20
            \<and> list_all re_digit (strip uname))
   \<and> (re_match rx_invite (strip uname)
        \<longleftrightarrow> 2 \<le> length (strip uname) \<and> length (strip uname) \<le> 10
            \<and> list_all ascii_alnum (strip uname))"
proof -
  have "re_match rx_user_id (strip uname)
        \<longleftrightarrow> 17 \<le> length (strip uname) \<and> length (strip uname) \<le> 20
            \<and> list_all re_digit (strip uname)"
    by (simp only: re_match_strip rx_user_id_def rx_single)
  moreover have "re_match rx_invite (strip uname)
        \<longleftrightarrow> 2 \<le> length (strip uname) \<and> length (strip uname) \<le> 10
            \<and> list_all ascii_alnum (strip uname)"
    by (simp only: re_match_strip rx_invite_def rx_single)
  moreover have "http_status (fst (discord_check clk uname hdrs)) = None
   \<and> elapsed_ms (fst (discord_check clk uname hdrs)) = 0
   \<and> (status (fst (discord_check clk uname hdrs)) = NOT_FOUND
        \<longleftrightarrow> \<not> re_match rx_user_id (strip uname) \<and> \<not> re_match rx_invite (strip uname))
   \<and> (status (fst (discord_check clk uname hdrs)) = UNKNOWN
        \<longleftrightarrow> re_match rx_user_id (strip uname) \<or> re_match rx_invite (strip uname))
   \<and> (status (fst (discord_check clk uname hdrs)) = NOT_FOUND
        \<longrightarrow> error (fst (discord_check clk uname hdrs))
              = Some ''Invalid Discord ID or invite code format.'')
   \<and> (status (fst (discord_check clk uname hdrs)) = UNKNOWN
        \<longrightarrow> error (fst (discord_check clk uname hdrs))
              = Some ''Verification not possible. Discord profiles are not public.'')"
    by (auto simp: discord_check_def Let_def ProviderResult_def)
  ultimately show ?thesis by blast
qed

theorem discord_check_format_witness:
  "\<not> re_match rx_user_id (strip ''abc_DEF12'') \<and> \<not> re_match rx_invite (strip ''abc_DEF12'')
   \<and> status (fst (discord_check example_clock ''abc_DEF12'' example_headers)) = NOT_FOUND
   \<and> error (fst (discord_check example_clock ''abc_DEF12'' example_headers))
       = Some ''Invalid Discord ID or invite code format.''
   \<and> re_match rx_user_id (strip ''  12345678901234567 '')
   \<and> status (fst (discord_check example_clock ''  12345678901234567 '' example_headers)) = UNKNOWN
   \<and> error (fst (discord_check example_clock ''  12345678901234567 '' example_headers))
       = Some ''Verification not possible. Discord profiles are not public.''"
proof -
  have a: "\<not> re_match rx_user_id (strip ''abc_DEF12'') \<and> \<not> re_match rx_invite (strip ''abc_DEF12'')"
    by code_simp
  have b: "re_match rx_user_id (strip ''  12345678901234567 '')"
    by code_simp
  show ?thesis
    using a b discord_check_format [of example_clock "''abc_DEF12''" example_headers]
      discord_check_format [of example_clock "''  12345678901234567 ''" example_headers]
    by simp
qed

section \<open>The scan: which probes, which client, which results\<close>











text \<open>
  C2: for a probe whose \<open>check\<close> does not complete within \<open>timeout + 5\<close> seconds, the
  engine makes a result with status ERROR, the error "Timed out after Ns" for
  \<open>N = timeout + 5\<close>, \<open>elapsed_ms = N * 1000\<close>, no HTTP status and the URL
  \<open>build_url(identifier)\<close>; this result goes to the progress callback and is returned.
\<close>

theorem timed_out_result_fields:
  assumes "map_of (registry eng) nm = Some prov"
      and "check prov uname (select_client cl prov (build_url prov uname)) (probe_headers ev prov)
             = TimedOut"
      and "res = \<lparr>provider = name prov, username = uname, url = build_url prov uname,
                  status = ERROR, http_status = None, elapsed_ms = (timeout prov + 5) * 1000,
                  evidence = [], profile = [],
                  error = Some (''Timed out after '' @ str_int (timeout prov + 5) @ ''s''),
                  timestamp_iso = utcnow ev\<rparr>"
  shows "run_one eng ev cl uname progress_callback nm =
           (case progress_callback of
              None \<Rightarrow> Inr res
            | Some cb \<Rightarrow> (case cb res of Some e \<Rightarrow> Inl e | None \<Rightarrow> Inr res))"
  using assms
  by (simp add: run_one_def Let_def emit_def demo_censor_def timed_out_result_def ProviderResult_def
           split: option.splits)

theorem timed_out_result_fields_witness:
  "run_one slow_engine example_env (open_clients example_env) ''alice'' None ''slow'' =
     Inr \<lparr>provider = ''slow'', username = ''alice'', url = ''http://slowsite.onion/alice'',
          status = ERROR, http_status = None, elapsed_ms = 15000,
          evidence = [], profile = [],
          error = Some ''Timed out after 15s'',
          timestamp_iso = ''2024-05-01T12:00:15+00:00''\<rparr>"
proof -
  have a: "map_of (registry slow_engine) ''slow'' = Some slow_provider"
    by (simp add: slow_engine_def)
  have b: "check slow_provider ''alice''
             (select_client (open_clients example_env) slow_provider (build_url slow_provider ''alice''))
             (probe_headers example_env slow_provider) = TimedOut"
    by (simp add: slow_provider_def)
  have n: "str_int (timeout slow_provider + 5) = ''15''"
    by code_simp
  show ?thesis
    using timed_out_result_fields [OF a b refl, of None] n
    by (simp add: slow_provider_def example_env_def)
qed

text \<open>
  C3: the list that \<open>scan_username\<close> returns is sorted by the lower-cased \<open>provider\<close>
  field, whatever the order of the results before.
\<close>

theorem scan_username_sorted:
  assumes "scan_username eng ev uname providers dynamic_addons progress_callback = Inr rs"
  shows "sorted (map (\<lambda>r. lower (provider r)) rs)"
  using assms
  by (auto simp: scan_username_def Let_def split: sum.splits if_splits)

theorem scan_username_sorted_witness:
  "map provider (projr (scan_username example_engine example_env ''alice'' None None None))
     = [''alpha'', ''Zeta'']
   \<and> sorted (map (\<lambda>r. lower (provider r))
               (projr (scan_username example_engine example_env ''alice'' None None None)))"
proof -
  have "\<not> isl (scan_username example_engine example_env ''alice'' None None None)"
    by code_simp
  then have h: "scan_username example_engine example_env ''alice'' None None None
                  = Inr (projr (scan_username example_engine example_env ''alice'' None None None))"
    by simp
  have m: "map provider (projr (scan_username example_engine example_env ''alice'' None None None))
             = [''alpha'', ''Zeta'']"
    by code_simp
  show ?thesis
    using m scan_username_sorted [OF h] by simp
qed

text \<open>
  C4 as stated fails: with the registry keys \<open>a\<close>, \<open>b\<close> (in this order) and the filter
  \<open>b\<close>, \<open>ghost\<close>, \<open>a\<close>, \<open>b\<close> the probes chosen are \<open>b\<close>, \<open>a\<close>, \<open>b\<close>: the order and the
  repetitions of the filter, not the order of the registry; and an empty filter
  chooses the whole registry, not the empty intersection.
\<close>

theorem chosen_order_counterexample:
  "map fst two_registry = [''a'', ''b'']
   \<and> chosen_providers two_registry (Some [''b'', ''ghost'', ''a'', ''b'']) = [''b'', ''a'', ''b'']
   \<and> chosen_providers two_registry (Some []) = [''a'', ''b'']"
  by (simp add: chosen_providers_def two_registry_def)

text \<open>
  C4, amended: when a non-empty filter is supplied, the probes chosen are the names of
  the filter that are keys of the registry, in the order of the filter and with its
  repetitions (as a set: the intersection of filter and registry); names that are no
  keys of the registry are dropped, with no error. Without a filter, or with an
  empty one, the keys of the whole registry are chosen, in registry order.
\<close>

theorem chosen_providers_amended:
  "(providers = None \<or> providers = Some [] \<longrightarrow> chosen_providers reg providers = map fst reg)
   \<and> (\<forall>ps. providers = Some ps \<and> ps \<noteq> [] \<longrightarrow>
         chosen_providers reg providers = filter (\<lambda>p. p \<in> fst ` set reg) ps
         \<and> set (chosen_providers reg providers) = set ps \<inter> fst ` set reg)
   \<and> (\<forall>g. g \<notin> fst ` set reg \<longrightarrow> g \<notin> set (chosen_providers reg providers))"
  by (auto simp: chosen_providers_def split: option.splits)

theorem chosen_providers_amended_witness:
  "chosen_providers two_registry (Some [''b'', ''ghost'', ''a'']) = [''b'', ''a'']
   \<and> ''ghost'' \<notin> set (chosen_providers two_registry (Some [''b'', ''ghost'', ''a'']))"
proof -
  have g: "''ghost'' \<notin> fst ` set two_registry"
    by (simp add: two_registry_def)
  have f: "filter (\<lambda>p. p \<in> fst ` set two_registry) [''b'', ''ghost'', ''a''] = [''b'', ''a'']"
    by (simp add: two_registry_def)
  show ?thesis
    using g f chosen_providers_amended [of "Some [''b'', ''ghost'', ''a'']" two_registry]
    by simp
qed

text \<open>
  C5 as stated fails: with \<open>SOCIAL_HUNT_PROXY\<close> set to the empty string and a URL that
  contains \<open>.onion\<close>, no Tor client exists (\<open>if tor_proxy_url:\<close> is false for the empty
  string) and the probe gets the direct client.
\<close>

theorem client_selection_counterexample:
  "SOCIAL_HUNT_PROXY empty_proxy_env = Some ''''
   \<and> contains ''.onion'' (build_url slow_provider ''alice'')
   \<and> select_client (open_clients empty_proxy_env) slow_provider (build_url slow_provider ''alice'')
       = ClientDirect"
  by (simp add: empty_proxy_env_def example_env_def slow_provider_def select_client_def
                open_clients_def open_client_def)

text \<open>
  C5, amended: the client of a probe is the first that applies: the Tor client when the
  URL contains \<open>.onion\<close> and the Tor client exists; else the clearnet-proxy client when
  the probe has \<open>use_proxy\<close> and that client exists; else the direct client. The Tor
  client exists exactly when \<open>SOCIAL_HUNT_PROXY\<close> is set to a non-empty string, the
  clearnet-proxy client exactly when \<open>SOCIAL_HUNT_CLEARNET_PROXY\<close> is.
\<close>

theorem client_selection_amended:
  "select_client cl prov l =
     (if contains ''.onion'' l \<and> client_tor cl \<noteq> None then the (client_tor cl)
      else if use_proxy prov \<and> client_clearnet_proxy cl \<noteq> None then the (client_clearnet_proxy cl)
      else client_direct cl)
   \<and> (client_tor (open_clients ev) \<noteq> None
        \<longleftrightarrow> (\<exists>u. SOCIAL_HUNT_PROXY ev = Some u \<and> u \<noteq> []))
   \<and> (client_clearnet_proxy (open_clients ev) \<noteq> None
        \<longleftrightarrow> (\<exists>u. SOCIAL_HUNT_CLEARNET_PROXY ev = Some u \<and> u \<noteq> []))
   \<and> (\<forall>u. SOCIAL_HUNT_PROXY ev = Some u \<and> u \<noteq> [] \<longrightarrow> client_tor (open_clients ev) = Some (ClientTor u))
   \<and> (\<forall>u. SOCIAL_HUNT_CLEARNET_PROXY ev = Some u \<and> u \<noteq> []
         \<longrightarrow> client_clearnet_proxy (open_clients ev) = Some (ClientClearnet u))
   \<and> client_direct (open_clients ev) = ClientDirect"
  by (auto simp: select_client_def open_clients_def open_client_def split: option.splits)

theorem client_selection_amended_witness:
  "contains ''.onion'' (build_url slow_provider ''alice'')
   \<and> select_client (open_clients example_env) slow_provider (build_url slow_provider ''alice'')
       = ClientTor ''socks5h://127.0.0.1:9050''
   \<and> \<not> contains ''.onion'' (build_url (echo_provider ''alpha'') ''alice'')
   \<and> select_client (open_clients example_env) (echo_provider ''alpha'')
         (build_url (echo_provider ''alpha'') ''alice'')
       = ClientDirect"
proof -
  have a: "contains ''.onion'' (build_url slow_provider ''alice'')"
    by (simp add: slow_provider_def)
  have b: "\<not> contains ''.onion'' (build_url (echo_provider ''alpha'') ''alice'')"
    by (simp add: echo_provider_def)
  have c: "SOCIAL_HUNT_PROXY example_env = Some ''socks5h://127.0.0.1:9050''"
          "\<not> use_proxy (echo_provider ''alpha'')"
    by (simp_all add: example_env_def echo_provider_def)
  show ?thesis
    using a b c
      client_selection_amended [of "open_clients example_env" slow_provider
                                 "build_url slow_provider ''alice''" example_env]
      client_selection_amended [of "open_clients example_env" "echo_provider ''alpha''"
                                 "build_url (echo_provider ''alpha'') ''alice''" example_env]
    by auto
qed


end
